theory Spec2Isabelle
  imports Main "HOL-Library.AList"
begin

section \<open>The backend API server of open-match (cmd/backendapi/apisrv/apisrv.go)\<close>

text \<open>
  The file implements five gRPC handlers on top of a Redis state store. The handlers are
  embedded here as HOL functions. Everything a handler does besides computing its return
  value is explicit: the calls into the state storage packages are functions of a record
  of collaborators that thread an abstract store state, every such call and every
  recorded metric is appended to a trace of events, and the in-place update of the
  players of an \<open>Assignments\<close> message is an update of a heap of players.
\<close>

subsection \<open>Messages (package internal/pb)\<close>

text \<open>
  A Go \<open>error\<close> is \<open>None\<close> for \<open>nil\<close> and \<open>Some msg\<close> for a non-nil error whose
  \<open>Error()\<close> text is \<open>msg\<close>; \<open>errors.New \<close> of the empty string is \<open>Some []\<close>, which
  is not nil.
\<close>

type_synonym error = "string option"

text \<open>
  A repeated message field is a slice of pointers: the loop variable of
  \<open>range a.Rosters\<close> is passed to getPlayerIdsFromRoster, which takes a
  \<open>*backend.Roster\<close>, and the players of a roster are generated the same way. The
  handlers read and write the fields \<open>Id\<close> and \<open>Assignment\<close> of a player through such
  a pointer, so players live in a heap and a roster holds their addresses: two entries
  with the same address are the same player. Whatever other fields the message has are
  the \<open>more\<close> part of the record. The elements of a repeated field are never nil (the
  unmarshaller of the RPC layer allocates each of them). Rosters are only read, so a
  roster is held by value.
\<close>

record Player =
  pl_Id :: string
  pl_Assignment :: string

type_synonym addr = nat

type_synonym 'z heap = "addr \<Rightarrow> 'z Player_scheme"

record Roster =
  ro_Name :: string
  ro_Players :: "addr list"

text \<open>
  The handlers never look inside a pool, so its type is a parameter. A nil slice is
  \<open>None\<close>, which is what \<open>profile.Pools == nil\<close> tests.
\<close>

record 'p MatchObject =
  mo_Id :: string
  mo_Properties :: string
  mo_Error :: string
  mo_Rosters :: "Roster list option"
  mo_Pools :: "'p list option"

record Assignments =
  as_Rosters :: "Roster list"
  as_Assignment :: string

record Result =
  res_Success :: bool
  res_Error :: string

text \<open>The zero value \<open>backend.MatchObject{}\<close>.\<close>

definition empty_MatchObject :: "'p MatchObject" where
  "empty_MatchObject =
     \<lparr>mo_Id = [], mo_Properties = [], mo_Error = [], mo_Rosters = None, mo_Pools = None\<rparr>"

subsection \<open>Collaborators\<close>

text \<open>The OpenCensus measures the handlers record.\<close>

datatype measure_name =
    BeGrpcRequests
  | BeGrpcErrors
  | BeAssignments
  | BeAssignmentFailures
  | BeAssignmentDeletions
  | BeAssignmentDeletionFailures

text \<open>
  One event per call into the state storage packages, with the arguments of the call
  (the context and the pool apart), and one per \<open>stats.Record\<close>.
\<close>

datatype 'p event =
    EvMarshalToRedis "'p MatchObject" int
  | EvUpdate string string
  | EvWatcher "'p MatchObject"
  | EvUpdateMultiFields "(string \<times> string) list" string
  | EvMove "string list" string string
  | EvDeleteMultiFields "string list" string
  | EvStats measure_name int

text \<open>
  The state storage packages (internal/statestorage/redis and below) and the context are
  not part of this file. Each of their functions is a field: it takes the arguments of
  the call and the state of the world outside the server, and returns what the call
  returns and the next state.
  \<^item> \<open>redispb_Watcher\<close> stands for starting the watcher and receiving from its channel:
    \<open>Some mo\<close> is a received value (\<open>ok\<close> true), \<open>None\<close> a closed channel. Its first
    argument is the backoff configuration string from which the handler builds the
    backoff policy it hands over.
  \<^item> \<open>context_Err\<close> is \<open>watcherBOCtx.Context().Err()\<close>.
\<close>

record ('s, 'p) StateStore =
  redispb_MarshalToRedis :: "'p MatchObject \<Rightarrow> int \<Rightarrow> 's \<Rightarrow> error \<times> 's"
  redisHelpers_Update :: "string \<Rightarrow> string \<Rightarrow> 's \<Rightarrow> error \<times> 's"
  redispb_Watcher :: "string \<Rightarrow> 'p MatchObject \<Rightarrow> 's \<Rightarrow> 'p MatchObject option \<times> 's"
  context_Err :: "'s \<Rightarrow> error"
  redisHelpers_UpdateMultiFields :: "(string \<times> string) list \<Rightarrow> string \<Rightarrow> 's \<Rightarrow> error \<times> 's"
  redisHelpers_DeleteMultiFields :: "string list \<Rightarrow> string \<Rightarrow> 's \<Rightarrow> error \<times> 's"
  ignorelist_Move :: "string list \<Rightarrow> string \<Rightarrow> string \<Rightarrow> 's \<Rightarrow> error \<times> 's"

text \<open>
  The configuration keys the handlers read. An optional key is \<open>None\<close> when
  \<open>cfg.IsSet\<close> is false.
\<close>

record Config =
  jsonkeys_pools :: "string option"
  jsonkeys_rosters :: "string option"
  redis_expirations_matchobject :: int
  queues_profiles_name :: string
  api_backend_backoff :: string

text \<open>
  The JSON libraries: \<open>gjson_Get json path\<close> is \<open>None\<close> when the result does not
  exist and its \<open>String()\<close> otherwise; \<open>jsonpb_UnmarshalString\<close> is \<open>None\<close> when it
  returns an error.
\<close>

record 'p JSON =
  gjson_Get :: "string \<Rightarrow> string \<Rightarrow> string option"
  gjson_Valid :: "string \<Rightarrow> bool"
  jsonpb_UnmarshalString :: "string \<Rightarrow> 'p MatchObject option"

text \<open>The server: its configuration and its connection pool.\<close>

record ('s, 'p) backendAPI =
  cfg :: Config
  pool :: "('s, 'p) StateStore"

text \<open>What a handler leaves behind: its two return values, the world and the trace.\<close>

record ('r, 's, 'p) call =
  ret :: 'r
  err :: error
  world :: 's
  trace :: "'p event list"

subsection \<open>getPlayerIdsFromRoster\<close>

text \<open>The loop appends the id of every player of the roster, in order.\<close>

fun playerIds_loop :: "'z heap \<Rightarrow> addr list \<Rightarrow> string list \<Rightarrow> string list" where
  "playerIds_loop h [] playerIDs = playerIDs"
| "playerIds_loop h (p # ps) playerIDs = playerIds_loop h ps (playerIDs @ [pl_Id (h p)])"

definition getPlayerIdsFromRoster :: "'z heap \<Rightarrow> Roster \<Rightarrow> string list" where
  "getPlayerIdsFromRoster h r = playerIds_loop h (ro_Players r) []"

subsection \<open>CreateAssignments\<close>

text \<open>
  The Go map \<open>players\<close> is an association list with one entry per key, updated with
  \<open>AList.update\<close>; its \<open>len\<close> is the length of the list.

  The inner loop, over the players of one roster. \<open>player\<close> is a pointer, so the
  assignment to \<open>player.Assignment\<close> changes the heap.
\<close>

fun players_loop ::
  "string \<Rightarrow> addr list \<Rightarrow> 'z heap \<Rightarrow> (string \<times> string) list \<Rightarrow> 'z heap \<times> (string \<times> string) list"
where
  "players_loop dflt [] h players = (h, players)"
| "players_loop dflt (p # ps) h players =
     (if pl_Id (h p) \<noteq> [] then
        (let h' = (if pl_Assignment (h p) = [] then h(p := (h p)\<lparr>pl_Assignment := dflt\<rparr>) else h)
         in players_loop dflt ps h' (AList.update (pl_Id (h' p)) (pl_Assignment (h' p)) players))
      else players_loop dflt ps h players)"

text \<open>The outer loop, over the rosters.\<close>

fun rosters_loop ::
  "string \<Rightarrow> Roster list \<Rightarrow> 'z heap \<Rightarrow> (string \<times> string) list \<Rightarrow> string list \<Rightarrow>
     'z heap \<times> (string \<times> string) list \<times> string list"
where
  "rosters_loop dflt [] h players playerIDs = (h, players, playerIDs)"
| "rosters_loop dflt (roster # rs) h players playerIDs =
     (case players_loop dflt (ro_Players roster) h players of
        (h', players') \<Rightarrow>
          rosters_loop dflt rs h' players' (playerIDs @ getPlayerIdsFromRoster h' roster))"

text \<open>
  The handler. Besides the call record it returns the heap, in which the caller sees the
  players of its message afterwards.
\<close>

definition CreateAssignments ::
  "('s, 'p) backendAPI \<Rightarrow> Assignments \<Rightarrow> 'z heap \<Rightarrow> 's \<Rightarrow> (Result, 's, 'p) call \<times> 'z heap"
where
  "CreateAssignments s a h w =
     (case rosters_loop (as_Assignment a) (as_Rosters a) h [] [] of
        (h', players, playerIDs) \<Rightarrow>
          (case redisHelpers_UpdateMultiFields (pool s) players ''assignment'' w of
             (e, w1) \<Rightarrow>
               (case ignorelist_Move (pool s) playerIDs ''proposed'' ''deindexed'' w1 of
                  (_, w2) \<Rightarrow>
                    (case e of
                       Some msg \<Rightarrow>
                         (\<lparr>ret = \<lparr>res_Success = False, res_Error = msg\<rparr>, err = e, world = w2,
                           trace = [EvUpdateMultiFields players ''assignment'',
                                    EvMove playerIDs ''proposed'' ''deindexed'',
                                    EvStats BeGrpcErrors 1,
                                    EvStats BeAssignmentFailures (int (length players))]\<rparr>, h')
                     | None \<Rightarrow>
                         (\<lparr>ret = \<lparr>res_Success = True, res_Error = []\<rparr>, err = e, world = w2,
                           trace = [EvUpdateMultiFields players ''assignment'',
                                    EvMove playerIDs ''proposed'' ''deindexed'',
                                    EvStats BeGrpcRequests 1,
                                    EvStats BeAssignments (int (length players))]\<rparr>, h')))))"

subsection \<open>DeleteAssignments\<close>


subsection \<open>CreateMatch\<close>

text \<open>
  The compatibility step for pools: when the profile has no pools, the key
  \<open>jsonkeys.pools\<close> is set and the properties hold something under it, that JSON is
  parsed into a message and its pools are taken over; a parse error leaves the profile as
  it is. The step for rosters is the same with \<open>jsonkeys.rosters\<close>. The handler writes
  to \<open>profile\<close> through the caller's pointer.
\<close>

definition shim_pools :: "'p JSON \<Rightarrow> Config \<Rightarrow> 'p MatchObject \<Rightarrow> 'p MatchObject" where
  \<open>shim_pools J c profile =
     (case (mo_Pools profile, jsonkeys_pools c) of
        (None, Some key) \<Rightarrow>
          (case gjson_Get J (mo_Properties profile) key of
             Some v \<Rightarrow>
               (case jsonpb_UnmarshalString J (''{"pools": '' @ v @ ''}'') of
                  Some ppools \<Rightarrow> profile\<lparr>mo_Pools := mo_Pools ppools\<rparr>
                | None \<Rightarrow> profile)
           | None \<Rightarrow> profile)
      | _ \<Rightarrow> profile)\<close>

definition shim_rosters :: "'p JSON \<Rightarrow> Config \<Rightarrow> 'p MatchObject \<Rightarrow> 'p MatchObject" where
  \<open>shim_rosters J c profile =
     (case (mo_Rosters profile, jsonkeys_rosters c) of
        (None, Some key) \<Rightarrow>
          (case gjson_Get J (mo_Properties profile) key of
             Some v \<Rightarrow>
               (case jsonpb_UnmarshalString J (''{"rosters": '' @ v @ ''}'') of
                  Some prosters \<Rightarrow> profile\<lparr>mo_Rosters := mo_Rosters prosters\<rparr>
                | None \<Rightarrow> profile)
           | None \<Rightarrow> profile)
      | _ \<Rightarrow> profile)\<close>

text \<open>
  The handler. \<open>moID\<close> is the identifier \<open>xid.New().String()\<close> returns. Besides the
  call record the function returns the profile as the caller sees it afterwards.
\<close>

definition CreateMatch ::
  "('s, 'p) backendAPI \<Rightarrow> 'p JSON \<Rightarrow> string \<Rightarrow> 'p MatchObject \<Rightarrow> 's \<Rightarrow>
     ('p MatchObject, 's, 'p) call \<times> 'p MatchObject"
where
  "CreateMatch s J moID profile0 w =
     (let requestKey = moID @ ''.'' @ mo_Id profile0;
          profile = shim_rosters J (cfg s) (shim_pools J (cfg s) profile0);
          ttl = redis_expirations_matchobject (cfg s)
      in
      case redispb_MarshalToRedis (pool s) profile ttl w of
        (Some e, w1) \<Rightarrow>
          (\<lparr>ret = empty_MatchObject, err = Some e, world = w1,
            trace = [EvMarshalToRedis profile ttl, EvStats BeGrpcErrors 1]\<rparr>, profile)
      | (None, w1) \<Rightarrow>
          (case redisHelpers_Update (pool s) (queues_profiles_name (cfg s)) requestKey w1 of
             (Some e, w2) \<Rightarrow>
               (\<lparr>ret = empty_MatchObject, err = Some e, world = w2,
                 trace = [EvMarshalToRedis profile ttl,
                          EvUpdate (queues_profiles_name (cfg s)) requestKey,
                          EvStats BeGrpcErrors 1]\<rparr>, profile)
           | (None, w2) \<Rightarrow>
               (case redispb_Watcher (pool s) (api_backend_backoff (cfg s))
                       (empty_MatchObject\<lparr>mo_Id := requestKey\<rparr>) w2 of
                  (None, w3) \<Rightarrow>
                    (let newMO = empty_MatchObject\<lparr>mo_Error :=
                           (case context_Err (pool s) w3 of
                              Some ce \<Rightarrow> ''channel closed: '' @ ce
                            | None \<Rightarrow> ''channel closed: backoff deadline exceeded'')\<rparr>
                     in (\<lparr>ret = newMO,
                          err = Some (''Error retrieving matchmaking results from state storage: ''
                                        @ mo_Error newMO),
                          world = w3,
                          trace = [EvMarshalToRedis profile ttl,
                                   EvUpdate (queues_profiles_name (cfg s)) requestKey,
                                   EvWatcher (empty_MatchObject\<lparr>mo_Id := requestKey\<rparr>),
                                   EvStats BeGrpcRequests 1]\<rparr>, profile))
                | (Some mo, w3) \<Rightarrow>
                    (let newMO = (if \<not> gjson_Valid J (mo_Properties profile)
                                  then mo\<lparr>mo_Error := ''retreived properties json was malformed''\<rparr>
                                  else mo)
                     in if mo_Error newMO \<noteq> [] then
                          (\<lparr>ret = newMO, err = Some (mo_Error newMO), world = w3,
                            trace = [EvMarshalToRedis profile ttl,
                                     EvUpdate (queues_profiles_name (cfg s)) requestKey,
                                     EvWatcher (empty_MatchObject\<lparr>mo_Id := requestKey\<rparr>),
                                     EvStats BeGrpcErrors 1]\<rparr>, profile)
                        else
                          (\<lparr>ret = newMO, err = None, world = w3,
                            trace = [EvMarshalToRedis profile ttl,
                                     EvUpdate (queues_profiles_name (cfg s)) requestKey,
                                     EvWatcher (empty_MatchObject\<lparr>mo_Id := requestKey\<rparr>),
                                     EvStats BeGrpcRequests 1]\<rparr>, profile)))))"

subsection \<open>Reading a trace\<close>

text \<open>The calls of one kind in a trace, in order, each with its arguments.\<close>

fun store_writes :: "'p event list \<Rightarrow> ('p MatchObject \<times> int) list" where
  "store_writes [] = []"
| "store_writes (EvMarshalToRedis mo ttl # t) = (mo, ttl) # store_writes t"
| "store_writes (_ # t) = store_writes t"

fun enqueues :: "'p event list \<Rightarrow> (string \<times> string) list" where
  "enqueues [] = []"
| "enqueues (EvUpdate q item # t) = (q, item) # enqueues t"
| "enqueues (_ # t) = enqueues t"



fun moves :: "'p event list \<Rightarrow> (string list \<times> string \<times> string) list" where
  "moves [] = []"
| "moves (EvMove ids src dst # t) = (ids, src, dst) # moves t"
| "moves (_ # t) = moves t"


subsection \<open>Vocabulary of the properties\<close>

text \<open>The addresses of all players of a list of rosters, roster by roster.\<close>

definition all_players :: "Roster list \<Rightarrow> addr list" where
  "all_players rs = concat (map ro_Players rs)"

text \<open>The assignment a player ends up with: its own when it has one, else the default.\<close>

definition effective :: "string \<Rightarrow> 'z Player_scheme \<Rightarrow> string" where
  "effective dflt p = (if pl_Assignment p = [] then dflt else pl_Assignment p)"

text \<open>
  The heap in which every player at an address of \<open>A\<close> that has an id and no assignment
  has got the default assignment.
\<close>

definition defaulted :: "string \<Rightarrow> addr set \<Rightarrow> 'z heap \<Rightarrow> 'z heap" where
  "defaulted dflt A h =
     (\<lambda>p. if p \<in> A \<and> pl_Id (h p) \<noteq> [] \<and> pl_Assignment (h p) = []
          then (h p)\<lparr>pl_Assignment := dflt\<rparr> else h p)"

text \<open>
  The map the loops build, read off the heap the call starts with: the players are
  visited in order and each one with an id stores its effective assignment under its id.
\<close>

fun write_map ::
  "string \<Rightarrow> 'z heap \<Rightarrow> addr list \<Rightarrow> (string \<times> string) list \<Rightarrow> (string \<times> string) list"
where
  "write_map dflt h [] m = m"
| "write_map dflt h (p # ps) m =
     write_map dflt h ps
       (if pl_Id (h p) \<noteq> [] then AList.update (pl_Id (h p)) (effective dflt (h p)) m else m)"

subsection \<open>Concrete collaborators and inputs\<close>

text \<open>
  A store whose calls return fixed results and count themselves in the world, a JSON
  library that accepts the empty object only, and a configuration without the legacy
  keys.
\<close>

definition fixed_store ::
  "error \<Rightarrow> error \<Rightarrow> unit MatchObject option \<Rightarrow> error \<Rightarrow> error \<Rightarrow> error \<Rightarrow> (nat, unit) StateStore"
where
  "fixed_store write_err enqueue_err delivered ctx_err fields_err move_err =
     \<lparr>redispb_MarshalToRedis = (\<lambda>mo ttl w. (write_err, Suc w)),
      redisHelpers_Update = (\<lambda>q item w. (enqueue_err, Suc w)),
      redispb_Watcher = (\<lambda>bo mo w. (delivered, Suc w)),
      context_Err = (\<lambda>w. ctx_err),
      redisHelpers_UpdateMultiFields = (\<lambda>m f w. (fields_err, Suc w)),
      redisHelpers_DeleteMultiFields = (\<lambda>ids f w. (fields_err, Suc w)),
      ignorelist_Move = (\<lambda>ids src dst w. (move_err, Suc w))\<rparr>"

definition plain_cfg :: Config where
  "plain_cfg =
     \<lparr>jsonkeys_pools = None, jsonkeys_rosters = None, redis_expirations_matchobject = 60,
      queues_profiles_name = ''profileq'', api_backend_backoff = []\<rparr>"

definition server ::
  "error \<Rightarrow> error \<Rightarrow> unit MatchObject option \<Rightarrow> error \<Rightarrow> error \<Rightarrow> error \<Rightarrow> (nat, unit) backendAPI"
where
  "server write_err enqueue_err delivered ctx_err fields_err move_err =
     \<lparr>cfg = plain_cfg,
      pool = fixed_store write_err enqueue_err delivered ctx_err fields_err move_err\<rparr>"

definition strict_json :: "unit JSON" where
  \<open>strict_json =
     \<lparr>gjson_Get = (\<lambda>json path. None), gjson_Valid = (\<lambda>json. json = ''{}''),
      jsonpb_UnmarshalString = (\<lambda>json. None)\<rparr>\<close>

definition profile_p1 :: "string \<Rightarrow> unit MatchObject" where
  "profile_p1 props =
     \<lparr>mo_Id = ''p1'', mo_Properties = props, mo_Error = [], mo_Rosters = None, mo_Pools = None\<rparr>"

definition answer :: "string \<Rightarrow> string \<Rightarrow> unit MatchObject" where
  "answer props e =
     \<lparr>mo_Id = ''x1.p1'', mo_Properties = props, mo_Error = e, mo_Rosters = None,
      mo_Pools = None\<rparr>"

text \<open>
  A heap with the players \<open>p1\<close> (no assignment) at address 0, \<open>p2\<close> (assigned to
  \<open>srvB\<close>) at 1, a second \<open>p1\<close> assigned to \<open>srvC\<close> at 2, and players without id and
  assignment everywhere else.
\<close>

definition three_players :: "unit heap" where
  "three_players =
     (\<lambda>p. \<lparr>pl_Id = [], pl_Assignment = []\<rparr>)
       (0 := \<lparr>pl_Id = ''p1'', pl_Assignment = []\<rparr>,
        1 := \<lparr>pl_Id = ''p2'', pl_Assignment = ''srvB''\<rparr>,
        2 := \<lparr>pl_Id = ''p1'', pl_Assignment = ''srvC''\<rparr>)"

definition one_roster :: "addr list \<Rightarrow> Assignments" where
  "one_roster ps =
     \<lparr>as_Rosters = [\<lparr>ro_Name = ''red'', ro_Players = ps\<rparr>], as_Assignment = ''srvA''\<rparr>"

section \<open>Properties\<close>

subsection \<open>The loops of CreateAssignments\<close>

lemma playerIds_loop_map: "playerIds_loop h ps acc = acc @ map (\<lambda>p. pl_Id (h p)) ps"
  by (induction ps arbitrary: acc) simp_all

lemma getPlayerIdsFromRoster_map:
  "getPlayerIdsFromRoster h r = map (\<lambda>p. pl_Id (h p)) (ro_Players r)"
  by (simp add: getPlayerIdsFromRoster_def playerIds_loop_map)

lemma defaulted_Id: "pl_Id (defaulted dflt A h p) = pl_Id (h p)"
  by (simp add: defaulted_def)

lemma defaulted_more: "Player.more (defaulted dflt A h p) = Player.more (h p)"
  by (simp add: defaulted_def)

lemma defaulted_effective: "effective dflt (defaulted dflt A h p) = effective dflt (h p)"
  by (simp add: defaulted_def effective_def)

lemma defaulted_defaulted:
  "defaulted dflt A (defaulted dflt B h) = defaulted dflt (A \<union> B) h"
  by (rule ext) (auto simp: defaulted_def)

lemma write_map_cong:
  "(\<And>p. p \<in> set ps \<Longrightarrow>
      pl_Id (h' p) = pl_Id (h p) \<and> effective dflt (h' p) = effective dflt (h p))
   \<Longrightarrow> write_map dflt h' ps m = write_map dflt h ps m"
  by (induction ps arbitrary: m) simp_all

lemma write_map_defaulted:
  "write_map dflt (defaulted dflt A h) ps m = write_map dflt h ps m"
  by (rule write_map_cong) (simp add: defaulted_Id defaulted_effective)

lemma write_map_append:
  "write_map dflt h (ps @ qs) m = write_map dflt h qs (write_map dflt h ps m)"
  by (induction ps arbitrary: m) simp_all

lemma players_loop_eq:
  "players_loop dflt ps h m = (defaulted dflt (set ps) h, write_map dflt h ps m)"
proof (induction ps arbitrary: h m)
  case Nil
  show ?case by (simp add: defaulted_def)
next
  case (Cons p ps)
  let ?h' = "defaulted dflt {p} h"
  have un: "defaulted dflt (set ps) ?h' = defaulted dflt (set (p # ps)) h"
    by (simp add: defaulted_defaulted Un_commute)
  show ?case
  proof (cases "pl_Id (h p) = []")
    case True
    then have "?h' = h"
      by (auto simp: defaulted_def fun_eq_iff)
    with True Cons.IH [of h m] un show ?thesis by simp
  next
    case False
    then have step: "(if pl_Assignment (h p) = [] then h(p := (h p)\<lparr>pl_Assignment := dflt\<rparr>) else h) = ?h'"
      by (auto simp: defaulted_def fun_eq_iff)
    from False have eff: "pl_Assignment (?h' p) = effective dflt (h p)"
      by (simp add: defaulted_def effective_def)
    from False show ?thesis
      by (simp add: step Let_def Cons.IH eff un write_map_defaulted defaulted_Id del: set_simps)
  qed
qed

lemma rosters_loop_eq:
  "rosters_loop dflt rs h m ids =
     (defaulted dflt (set (all_players rs)) h,
      write_map dflt h (all_players rs) m,
      ids @ map (\<lambda>p. pl_Id (h p)) (all_players rs))"
proof (induction rs arbitrary: h m ids)
  case Nil
  show ?case by (simp add: all_players_def defaulted_def)
next
  case (Cons r rs)
  show ?case
    by (simp add: players_loop_eq Cons.IH getPlayerIdsFromRoster_map write_map_defaulted
        defaulted_Id all_players_def write_map_append defaulted_defaulted Un_commute)
qed





text \<open>The handler in terms of the three results of its loops.\<close>

lemma CreateAssignments_eq:
  "CreateAssignments s a h w =
     (let players = write_map (as_Assignment a) h (all_players (as_Rosters a)) [];
          playerIDs = map (\<lambda>p. pl_Id (h p)) (all_players (as_Rosters a));
          e = fst (redisHelpers_UpdateMultiFields (pool s) players ''assignment'' w);
          w1 = snd (redisHelpers_UpdateMultiFields (pool s) players ''assignment'' w);
          w2 = snd (ignorelist_Move (pool s) playerIDs ''proposed'' ''deindexed'' w1)
      in (\<lparr>ret = (case e of Some msg \<Rightarrow> \<lparr>res_Success = False, res_Error = msg\<rparr>
                          | None \<Rightarrow> \<lparr>res_Success = True, res_Error = []\<rparr>),
            err = e, world = w2,
            trace = [EvUpdateMultiFields players ''assignment'',
                     EvMove playerIDs ''proposed'' ''deindexed'',
                     EvStats (if e = None then BeGrpcRequests else BeGrpcErrors) 1,
                     EvStats (if e = None then BeAssignments else BeAssignmentFailures)
                       (int (length players))]\<rparr>,
          defaulted (as_Assignment a) (set (all_players (as_Rosters a))) h))"
  by (simp add: CreateAssignments_def rosters_loop_eq Let_def split: prod.splits option.splits)

subsection \<open>CreateAssignments and DeleteAssignments\<close>

text \<open>
  C3. Every call of CreateAssignments applies the move to the world that the batch write
  left behind, whatever the batch write returned: the world after the call is the world
  after moving the ids of all players of all rosters from the list "proposed" to the list
  "deindexed", and the trace holds exactly this one move, right after the batch write.
  What the move returns is dropped: the error of the call is the error of the batch write
  and the Result is made from it alone, so with any other move function in its place the
  call returns the same Result and the same error (and that function is the one applied).
\<close>

theorem CreateAssignments_move_unconditional:
  fixes s :: "('s, 'p) backendAPI" and a :: Assignments and h :: "'z heap" and w :: 's
    and mv :: "string list \<Rightarrow> string \<Rightarrow> string \<Rightarrow> 's \<Rightarrow> error \<times> 's"
  defines "c \<equiv> fst (CreateAssignments s a h w)"
    and "c' \<equiv> fst (CreateAssignments (s\<lparr>pool := (pool s)\<lparr>ignorelist_Move := mv\<rparr>\<rparr>) a h w)"
    and "players \<equiv> fst (snd (rosters_loop (as_Assignment a) (as_Rosters a) h [] []))"
    and "playerIDs \<equiv> snd (snd (rosters_loop (as_Assignment a) (as_Rosters a) h [] []))"
  defines "written \<equiv> redisHelpers_UpdateMultiFields (pool s) players ''assignment'' w"
  shows "world c = snd (ignorelist_Move (pool s) playerIDs ''proposed'' ''deindexed'' (snd written))
       \<and> world c' = snd (mv playerIDs ''proposed'' ''deindexed'' (snd written))
       \<and> playerIDs = map (\<lambda>p. pl_Id (h p)) (all_players (as_Rosters a))
       \<and> moves (trace c) = [(playerIDs, ''proposed'', ''deindexed'')]
       \<and> take 2 (trace c) =
           [EvUpdateMultiFields players ''assignment'', EvMove playerIDs ''proposed'' ''deindexed'']
       \<and> err c = fst written
       \<and> ret c = (case fst written of
                    Some msg \<Rightarrow> \<lparr>res_Success = False, res_Error = msg\<rparr>
                  | None \<Rightarrow> \<lparr>res_Success = True, res_Error = []\<rparr>)
       \<and> ret c' = ret c
       \<and> err c' = err c"
proof -
  have loops: "rosters_loop (as_Assignment a) (as_Rosters a) h [] [] =
      (defaulted (as_Assignment a) (set (all_players (as_Rosters a))) h,
       write_map (as_Assignment a) h (all_players (as_Rosters a)) [],
       map (\<lambda>p. pl_Id (h p)) (all_players (as_Rosters a)))"
    by (simp add: rosters_loop_eq)
  have ids: "playerIDs = map (\<lambda>p. pl_Id (h p)) (all_players (as_Rosters a))"
    unfolding playerIDs_def by (simp add: loops)
  have pls: "players = write_map (as_Assignment a) h (all_players (as_Rosters a)) []"
    unfolding players_def by (simp add: loops)
  have w: "world c = snd (ignorelist_Move (pool s) playerIDs ''proposed'' ''deindexed'' (snd written))"
    unfolding c_def written_def ids pls by (simp add: CreateAssignments_eq Let_def)
  have w': "world c' = snd (mv playerIDs ''proposed'' ''deindexed'' (snd written))"
    unfolding c'_def written_def ids pls by (simp add: CreateAssignments_eq Let_def)
  have mvs: "moves (trace c) = [(playerIDs, ''proposed'', ''deindexed'')]"
    unfolding c_def ids by (simp add: CreateAssignments_eq Let_def)
  have tk: "take 2 (trace c) =
      [EvUpdateMultiFields players ''assignment'', EvMove playerIDs ''proposed'' ''deindexed'']"
    unfolding c_def ids pls by (simp add: CreateAssignments_eq Let_def)
  have e: "err c = fst written"
    unfolding c_def written_def pls by (simp add: CreateAssignments_eq Let_def)
  have r: "ret c = (case fst written of
                    Some msg \<Rightarrow> \<lparr>res_Success = False, res_Error = msg\<rparr>
                  | None \<Rightarrow> \<lparr>res_Success = True, res_Error = []\<rparr>)"
    unfolding c_def written_def pls by (simp add: CreateAssignments_eq Let_def)
  have r': "ret c' = ret c"
    unfolding c_def c'_def by (simp add: CreateAssignments_eq Let_def)
  have e': "err c' = err c"
    unfolding c_def c'_def by (simp add: CreateAssignments_eq Let_def)
  from w w' ids mvs tk e r r' e' show ?thesis
    by simp
qed

text \<open>
  At a store that counts its calls in the world: the batch write fails, the move is
  applied all the same (the world is 2 after the call) and fails too, and the call
  returns the failure of the batch write; with a successful batch write and a failing
  move the call succeeds.
\<close>

theorem CreateAssignments_move_unconditional_witness:
  "world (fst (CreateAssignments
       (server None None None None (Some ''write failed'') (Some ''move failed''))
       (one_roster [0, 1]) three_players 0)) = 2
   \<and> moves (trace (fst (CreateAssignments
       (server None None None None (Some ''write failed'') (Some ''move failed''))
       (one_roster [0, 1]) three_players 0))) = [([''p1'', ''p2''], ''proposed'', ''deindexed'')]
   \<and> ret (fst (CreateAssignments
       (server None None None None (Some ''write failed'') (Some ''move failed''))
       (one_roster [0, 1]) three_players 0)) = \<lparr>res_Success = False, res_Error = ''write failed''\<rparr>
   \<and> err (fst (CreateAssignments
       (server None None None None (Some ''write failed'') (Some ''move failed''))
       (one_roster [0, 1]) three_players 0)) = Some ''write failed''
   \<and> world (fst (CreateAssignments
       (server None None None None None (Some ''move failed''))
       (one_roster [0, 1]) three_players 0)) = 2
   \<and> ret (fst (CreateAssignments
       (server None None None None None (Some ''move failed''))
       (one_roster [0, 1]) three_players 0)) = \<lparr>res_Success = True, res_Error = []\<rparr>
   \<and> err (fst (CreateAssignments
       (server None None None None None (Some ''move failed''))
       (one_roster [0, 1]) three_players 0)) = None"
  using CreateAssignments_move_unconditional
    [of "server None None None None (Some ''write failed'') (Some ''move failed'')"
        "one_roster [0, 1]" three_players 0]
  by (simp add: CreateAssignments_def server_def fixed_store_def one_roster_def
      three_players_def getPlayerIdsFromRoster_def all_players_def)





text \<open>
  C10. CreateAssignments changes the players of its input in place. After the call a
  player of one of the rosters that has an id and had no assignment has the default
  assignment of the message, and every other player, in the message or not, is as it was;
  no player's id or further fields change. The heap is the one the loops leave, which run
  before the batch write, and it does not depend on the store.
\<close>

theorem CreateAssignments_mutates_input:
  "snd (CreateAssignments s a h w) p =
     (if p \<in> set (all_players (as_Rosters a)) \<and> pl_Id (h p) \<noteq> [] \<and> pl_Assignment (h p) = []
      then (h p)\<lparr>pl_Assignment := as_Assignment a\<rparr> else h p)
   \<and> pl_Id (snd (CreateAssignments s a h w) p) = pl_Id (h p)
   \<and> Player.more (snd (CreateAssignments s a h w) p) = Player.more (h p)
   \<and> snd (CreateAssignments s a h w) = fst (rosters_loop (as_Assignment a) (as_Rosters a) h [] [])
   \<and> snd (CreateAssignments s a h w) = snd (CreateAssignments s' a h w')"
  by (simp add: CreateAssignments_eq Let_def rosters_loop_eq defaulted_def)

theorem CreateAssignments_mutates_input_witness:
  "snd (CreateAssignments (server None None None None (Some ''write failed'') None)
      (one_roster [0, 1, 3]) three_players 0) 0 = \<lparr>pl_Id = ''p1'', pl_Assignment = ''srvA''\<rparr>
   \<and> snd (CreateAssignments (server None None None None (Some ''write failed'') None)
      (one_roster [0, 1, 3]) three_players 0) 1 = \<lparr>pl_Id = ''p2'', pl_Assignment = ''srvB''\<rparr>
   \<and> snd (CreateAssignments (server None None None None (Some ''write failed'') None)
      (one_roster [0, 1, 3]) three_players 0) 3 = \<lparr>pl_Id = [], pl_Assignment = []\<rparr>
   \<and> snd (CreateAssignments (server None None None None (Some ''write failed'') None)
      (one_roster [1]) three_players 0) 0 = \<lparr>pl_Id = ''p1'', pl_Assignment = []\<rparr>"
  using CreateAssignments_mutates_input
    [of "server None None None None (Some ''write failed'') None" "one_roster [0, 1, 3]"
        three_players 0 0]
  by (simp add: CreateAssignments_def server_def fixed_store_def one_roster_def
      three_players_def getPlayerIdsFromRoster_def)


subsection \<open>CreateMatch\<close>

lemma shim_keeps:
  "mo_Id (shim_rosters J c (shim_pools J c p)) = mo_Id p"
  "mo_Properties (shim_rosters J c (shim_pools J c p)) = mo_Properties p"
  "mo_Error (shim_rosters J c (shim_pools J c p)) = mo_Error p"
  by (simp_all add: shim_rosters_def shim_pools_def split: option.splits)

lemma CreateMatch_write_failed:
  assumes "redispb_MarshalToRedis (pool s) (shim_rosters J (cfg s) (shim_pools J (cfg s) profile0))
             (redis_expirations_matchobject (cfg s)) w = (Some e, w1)"
  shows "fst (CreateMatch s J moID profile0 w) =
           \<lparr>ret = empty_MatchObject, err = Some e, world = w1,
            trace = [EvMarshalToRedis (shim_rosters J (cfg s) (shim_pools J (cfg s) profile0))
                       (redis_expirations_matchobject (cfg s)),
                     EvStats BeGrpcErrors 1]\<rparr>"
  using assms by (simp add: CreateMatch_def Let_def)

lemma CreateMatch_enqueue_failed:
  assumes "redispb_MarshalToRedis (pool s) (shim_rosters J (cfg s) (shim_pools J (cfg s) profile0))
             (redis_expirations_matchobject (cfg s)) w = (None, w1)"
    and "redisHelpers_Update (pool s) (queues_profiles_name (cfg s))
             (moID @ ''.'' @ mo_Id profile0) w1 = (Some e, w2)"
  shows "fst (CreateMatch s J moID profile0 w) =
           \<lparr>ret = empty_MatchObject, err = Some e, world = w2,
            trace = [EvMarshalToRedis (shim_rosters J (cfg s) (shim_pools J (cfg s) profile0))
                       (redis_expirations_matchobject (cfg s)),
                     EvUpdate (queues_profiles_name (cfg s)) (moID @ ''.'' @ mo_Id profile0),
                     EvStats BeGrpcErrors 1]\<rparr>"
  using assms by (simp add: CreateMatch_def Let_def)

lemma CreateMatch_closed:
  assumes "redispb_MarshalToRedis (pool s) (shim_rosters J (cfg s) (shim_pools J (cfg s) profile0))
             (redis_expirations_matchobject (cfg s)) w = (None, w1)"
    and "redisHelpers_Update (pool s) (queues_profiles_name (cfg s))
             (moID @ ''.'' @ mo_Id profile0) w1 = (None, w2)"
    and "redispb_Watcher (pool s) (api_backend_backoff (cfg s))
             (empty_MatchObject\<lparr>mo_Id := moID @ ''.'' @ mo_Id profile0\<rparr>) w2 = (None, w3)"
  shows "fst (CreateMatch s J moID profile0 w) =
           \<lparr>ret = empty_MatchObject\<lparr>mo_Error :=
                    (case context_Err (pool s) w3 of
                       Some ce \<Rightarrow> ''channel closed: '' @ ce
                     | None \<Rightarrow> ''channel closed: backoff deadline exceeded'')\<rparr>,
            err = Some (''Error retrieving matchmaking results from state storage: '' @
                    (case context_Err (pool s) w3 of
                       Some ce \<Rightarrow> ''channel closed: '' @ ce
                     | None \<Rightarrow> ''channel closed: backoff deadline exceeded'')),
            world = w3,
            trace = [EvMarshalToRedis (shim_rosters J (cfg s) (shim_pools J (cfg s) profile0))
                       (redis_expirations_matchobject (cfg s)),
                     EvUpdate (queues_profiles_name (cfg s)) (moID @ ''.'' @ mo_Id profile0),
                     EvWatcher (empty_MatchObject\<lparr>mo_Id := moID @ ''.'' @ mo_Id profile0\<rparr>),
                     EvStats BeGrpcRequests 1]\<rparr>"
  using assms by (simp add: CreateMatch_def Let_def)

lemma CreateMatch_delivered:
  assumes "redispb_MarshalToRedis (pool s) (shim_rosters J (cfg s) (shim_pools J (cfg s) profile0))
             (redis_expirations_matchobject (cfg s)) w = (None, w1)"
    and "redisHelpers_Update (pool s) (queues_profiles_name (cfg s))
             (moID @ ''.'' @ mo_Id profile0) w1 = (None, w2)"
    and "redispb_Watcher (pool s) (api_backend_backoff (cfg s))
             (empty_MatchObject\<lparr>mo_Id := moID @ ''.'' @ mo_Id profile0\<rparr>) w2 = (Some mo, w3)"
  shows "fst (CreateMatch s J moID profile0 w) =
           (let newMO = (if gjson_Valid J (mo_Properties profile0) then mo
                         else mo\<lparr>mo_Error := ''retreived properties json was malformed''\<rparr>)
            in \<lparr>ret = newMO,
                err = (if mo_Error newMO \<noteq> [] then Some (mo_Error newMO) else None),
                world = w3,
                trace = [EvMarshalToRedis (shim_rosters J (cfg s) (shim_pools J (cfg s) profile0))
                           (redis_expirations_matchobject (cfg s)),
                         EvUpdate (queues_profiles_name (cfg s)) (moID @ ''.'' @ mo_Id profile0),
                         EvWatcher (empty_MatchObject\<lparr>mo_Id := moID @ ''.'' @ mo_Id profile0\<rparr>),
                         EvStats (if mo_Error newMO \<noteq> [] then BeGrpcErrors else BeGrpcRequests) 1]\<rparr>)"
  using assms by (simp add: CreateMatch_def Let_def shim_keeps)

lemmas fixtures =
  Let_def server_def fixed_store_def plain_cfg_def strict_json_def profile_p1_def answer_def
  shim_rosters_def shim_pools_def empty_MatchObject_def

text \<open>
  C1 as stated fails: when the enqueue fails the call returns a non-nil error together
  with the empty message, whose Error field is empty.
\<close>

theorem CreateMatch_error_pairing_counterexample:
  "mo_Id (profile_p1 ''{}'') \<noteq> []
   \<and> err (fst (CreateMatch (server None (Some ''queue unreachable'') None None None None)
              strict_json ''x1'' (profile_p1 ''{}'') 0)) = Some ''queue unreachable''
   \<and> mo_Error (ret (fst (CreateMatch (server None (Some ''queue unreachable'') None None None None)
              strict_json ''x1'' (profile_p1 ''{}'') 0))) = []"
  by (simp add: CreateMatch_def fixtures)

text \<open>
  C1, amended. When the store write and the enqueue succeed, CreateMatch returns either a
  nil error and a result with an empty Error field, or a non-nil error and a result with
  a non-empty Error field. When the store write fails, or the enqueue after a successful
  write, it returns the error of that step with the empty message, whose Error field is
  empty.
\<close>

theorem CreateMatch_error_pairing:
  fixes s :: "('s, 'p) backendAPI" and J moID profile0 w
  defines "c \<equiv> fst (CreateMatch s J moID profile0 w)"
    and "write \<equiv> redispb_MarshalToRedis (pool s)
           (shim_rosters J (cfg s) (shim_pools J (cfg s) profile0))
           (redis_expirations_matchobject (cfg s)) w"
    and "enqueue \<equiv> redisHelpers_Update (pool s) (queues_profiles_name (cfg s))
           (moID @ ''.'' @ mo_Id profile0)"
  shows "(\<forall>e w1. write = (Some e, w1) \<longrightarrow>
            err c = Some e \<and> ret c = empty_MatchObject \<and> mo_Error (ret c) = [])
       \<and> (\<forall>e w1 w2. write = (None, w1) \<and> enqueue w1 = (Some e, w2) \<longrightarrow>
            err c = Some e \<and> ret c = empty_MatchObject \<and> mo_Error (ret c) = [])
       \<and> (\<forall>w1 w2. write = (None, w1) \<and> enqueue w1 = (None, w2) \<longrightarrow>
            (err c = None \<and> mo_Error (ret c) = []) \<or> (err c \<noteq> None \<and> mo_Error (ret c) \<noteq> []))"
proof (intro conjI allI impI)
  fix e w1
  assume "write = (Some e, w1)"
  then have "c = \<lparr>ret = empty_MatchObject, err = Some e, world = w1,
      trace = [EvMarshalToRedis (shim_rosters J (cfg s) (shim_pools J (cfg s) profile0))
                 (redis_expirations_matchobject (cfg s)), EvStats BeGrpcErrors 1]\<rparr>"
    unfolding c_def write_def by (rule CreateMatch_write_failed)
  then show "err c = Some e" "ret c = empty_MatchObject" "mo_Error (ret c) = []"
    by (simp_all add: empty_MatchObject_def)
next
  fix e w1 w2
  assume "write = (None, w1) \<and> enqueue w1 = (Some e, w2)"
  then have "write = (None, w1)" and "enqueue w1 = (Some e, w2)"
    by simp_all
  then have "c = \<lparr>ret = empty_MatchObject, err = Some e, world = w2,
      trace = [EvMarshalToRedis (shim_rosters J (cfg s) (shim_pools J (cfg s) profile0))
                 (redis_expirations_matchobject (cfg s)),
               EvUpdate (queues_profiles_name (cfg s)) (moID @ ''.'' @ mo_Id profile0),
               EvStats BeGrpcErrors 1]\<rparr>"
    unfolding c_def write_def enqueue_def by (rule CreateMatch_enqueue_failed)
  then show "err c = Some e" "ret c = empty_MatchObject" "mo_Error (ret c) = []"
    by (simp_all add: empty_MatchObject_def)
next
  fix w1 w2
  assume ok: "write = (None, w1) \<and> enqueue w1 = (None, w2)"
  obtain r w3 where watch: "redispb_Watcher (pool s) (api_backend_backoff (cfg s))
      (empty_MatchObject\<lparr>mo_Id := moID @ ''.'' @ mo_Id profile0\<rparr>) w2 = (r, w3)"
    by (cases "redispb_Watcher (pool s) (api_backend_backoff (cfg s))
      (empty_MatchObject\<lparr>mo_Id := moID @ ''.'' @ mo_Id profile0\<rparr>) w2")
  show "(err c = None \<and> mo_Error (ret c) = []) \<or> (err c \<noteq> None \<and> mo_Error (ret c) \<noteq> [])"
  proof (cases r)
    case None
    with ok watch have "err c \<noteq> None \<and> mo_Error (ret c) \<noteq> []"
      unfolding c_def write_def enqueue_def
      by (simp add: CreateMatch_closed [of s J profile0 w w1 moID w2 w3] split: option.splits)
    then show ?thesis ..
  next
    case (Some mo)
    with ok watch show ?thesis
      unfolding c_def write_def enqueue_def
      by (simp add: CreateMatch_delivered [of s J profile0 w w1 moID w2 mo w3] Let_def)
  qed
qed

theorem CreateMatch_error_pairing_witness:
  "err (fst (CreateMatch (server (Some ''store unreachable'') None None None None None)
              strict_json ''x1'' (profile_p1 ''{}'') 0)) = Some ''store unreachable''
   \<and> mo_Error (ret (fst (CreateMatch (server (Some ''store unreachable'') None None None None None)
              strict_json ''x1'' (profile_p1 ''{}'') 0))) = []
   \<and> err (fst (CreateMatch (server None None (Some (answer ''{}'' [])) None None None)
              strict_json ''x1'' (profile_p1 ''{}'') 0)) = None
   \<and> mo_Error (ret (fst (CreateMatch (server None None (Some (answer ''{}'' [])) None None None)
              strict_json ''x1'' (profile_p1 ''{}'') 0))) = []
   \<and> err (fst (CreateMatch (server None None None None None None)
              strict_json ''x1'' (profile_p1 ''{}'') 0)) \<noteq> None
   \<and> mo_Error (ret (fst (CreateMatch (server None None None None None None)
              strict_json ''x1'' (profile_p1 ''{}'') 0))) \<noteq> []"
  using CreateMatch_error_pairing
    [of "server (Some ''store unreachable'') None None None None None" strict_json
        "profile_p1 ''{}''" 0 "''x1''"]
    CreateMatch_error_pairing
    [of "server None None (Some (answer ''{}'' [])) None None None" strict_json
        "profile_p1 ''{}''" 0 "''x1''"]
  by (simp add: CreateMatch_def fixtures)

text \<open>
  C2. When the store write and the enqueue succeed and the watch delivers a record, the
  validity check is made on the properties of the profile that came in (the compatibility
  step leaves them as they are). If they are not valid JSON the result is the delivered
  record with the Error field set to the malformed-properties message, and the error
  carries that message, whatever the delivered record holds. If they are valid the
  delivered record is returned unchanged: its own properties are never inspected.
\<close>

theorem CreateMatch_validates_input_properties:
  assumes "redispb_MarshalToRedis (pool s) (shim_rosters J (cfg s) (shim_pools J (cfg s) profile0))
             (redis_expirations_matchobject (cfg s)) w = (None, w1)"
    and "redisHelpers_Update (pool s) (queues_profiles_name (cfg s))
             (moID @ ''.'' @ mo_Id profile0) w1 = (None, w2)"
    and "redispb_Watcher (pool s) (api_backend_backoff (cfg s))
             (empty_MatchObject\<lparr>mo_Id := moID @ ''.'' @ mo_Id profile0\<rparr>) w2 = (Some mo, w3)"
  shows "mo_Properties (shim_rosters J (cfg s) (shim_pools J (cfg s) profile0)) =
           mo_Properties profile0
       \<and> (\<not> gjson_Valid J (mo_Properties profile0) \<longrightarrow>
            ret (fst (CreateMatch s J moID profile0 w)) =
              mo\<lparr>mo_Error := ''retreived properties json was malformed''\<rparr>
          \<and> err (fst (CreateMatch s J moID profile0 w)) =
              Some ''retreived properties json was malformed'')
       \<and> (gjson_Valid J (mo_Properties profile0) \<longrightarrow>
            ret (fst (CreateMatch s J moID profile0 w)) = mo)"
  by (simp add: CreateMatch_delivered [OF assms] shim_keeps Let_def)

theorem CreateMatch_validates_input_properties_witness:
  "\<not> gjson_Valid strict_json (mo_Properties (profile_p1 ''{''))
   \<and> gjson_Valid strict_json (mo_Properties (answer ''{}'' []))
   \<and> ret (fst (CreateMatch (server None None (Some (answer ''{}'' [])) None None None)
        strict_json ''x1'' (profile_p1 ''{'') 0)) =
       answer ''{}'' ''retreived properties json was malformed''
   \<and> err (fst (CreateMatch (server None None (Some (answer ''{}'' [])) None None None)
        strict_json ''x1'' (profile_p1 ''{'') 0)) =
       Some ''retreived properties json was malformed''"
proof -
  let ?s = "server None None (Some (answer ''{}'' [])) None None None"
  let ?p = "profile_p1 ''{''"
  have written: "redispb_MarshalToRedis (pool ?s)
      (shim_rosters strict_json (cfg ?s) (shim_pools strict_json (cfg ?s) ?p))
      (redis_expirations_matchobject (cfg ?s)) 0 = (None, 1)"
    by (simp add: fixtures)
  have enqueued: "redisHelpers_Update (pool ?s) (queues_profiles_name (cfg ?s))
      (''x1'' @ ''.'' @ mo_Id ?p) 1 = (None, 2)"
    by (simp add: fixtures)
  have delivered: "redispb_Watcher (pool ?s) (api_backend_backoff (cfg ?s))
      (empty_MatchObject\<lparr>mo_Id := ''x1'' @ ''.'' @ mo_Id ?p\<rparr>) 2 = (Some (answer ''{}'' []), 3)"
    by (simp add: fixtures)
  show ?thesis
    using CreateMatch_validates_input_properties [OF written enqueued delivered]
    by (simp add: strict_json_def profile_p1_def answer_def)
qed

text \<open>
  C5. When the store write and the enqueue succeed and the channel of the watch is closed
  without a value, the result is the empty message with the Error field "channel closed: "
  followed by the text of the context's error when the context has one, and
  "channel closed: backoff deadline exceeded" when it has none. The error is not nil; its
  text is "Error retrieving matchmaking results from state storage: " followed by that
  Error field.
\<close>

theorem CreateMatch_channel_closed:
  assumes "redispb_MarshalToRedis (pool s) (shim_rosters J (cfg s) (shim_pools J (cfg s) profile0))
             (redis_expirations_matchobject (cfg s)) w = (None, w1)"
    and "redisHelpers_Update (pool s) (queues_profiles_name (cfg s))
             (moID @ ''.'' @ mo_Id profile0) w1 = (None, w2)"
    and "redispb_Watcher (pool s) (api_backend_backoff (cfg s))
             (empty_MatchObject\<lparr>mo_Id := moID @ ''.'' @ mo_Id profile0\<rparr>) w2 = (None, w3)"
  shows "mo_Error (ret (fst (CreateMatch s J moID profile0 w))) =
           (case context_Err (pool s) w3 of
              Some ce \<Rightarrow> ''channel closed: '' @ ce
            | None \<Rightarrow> ''channel closed: backoff deadline exceeded'')
       \<and> ret (fst (CreateMatch s J moID profile0 w)) =
           empty_MatchObject\<lparr>mo_Error := mo_Error (ret (fst (CreateMatch s J moID profile0 w)))\<rparr>
       \<and> err (fst (CreateMatch s J moID profile0 w)) =
           Some (''Error retrieving matchmaking results from state storage: '' @
                 mo_Error (ret (fst (CreateMatch s J moID profile0 w))))"
  by (simp add: CreateMatch_closed [OF assms] empty_MatchObject_def)

theorem CreateMatch_channel_closed_witness:
  "mo_Error (ret (fst (CreateMatch (server None None None (Some ''context canceled'') None None)
        strict_json ''x1'' (profile_p1 ''{}'') 0))) = ''channel closed: context canceled''
   \<and> err (fst (CreateMatch (server None None None (Some ''context canceled'') None None)
        strict_json ''x1'' (profile_p1 ''{}'') 0)) =
       Some ''Error retrieving matchmaking results from state storage: channel closed: context canceled''
   \<and> mo_Error (ret (fst (CreateMatch (server None None None None None None)
        strict_json ''x1'' (profile_p1 ''{}'') 0))) = ''channel closed: backoff deadline exceeded''
   \<and> err (fst (CreateMatch (server None None None None None None)
        strict_json ''x1'' (profile_p1 ''{}'') 0)) =
       Some ''Error retrieving matchmaking results from state storage: channel closed: backoff deadline exceeded''"
proof -
  let ?p = "profile_p1 ''{}''"
  have written: "redispb_MarshalToRedis (pool (server None None None ce None None))
      (shim_rosters strict_json (cfg (server None None None ce None None))
         (shim_pools strict_json (cfg (server None None None ce None None)) ?p))
      (redis_expirations_matchobject (cfg (server None None None ce None None))) 0 = (None, 1)"
    for ce
    by (simp add: fixtures)
  have enqueued: "redisHelpers_Update (pool (server None None None ce None None))
      (queues_profiles_name (cfg (server None None None ce None None)))
      (''x1'' @ ''.'' @ mo_Id ?p) 1 = (None, 2)"
    for ce
    by (simp add: fixtures)
  have closed: "redispb_Watcher (pool (server None None None ce None None))
      (api_backend_backoff (cfg (server None None None ce None None)))
      (empty_MatchObject\<lparr>mo_Id := ''x1'' @ ''.'' @ mo_Id ?p\<rparr>) 2 = (None, 3)"
    for ce
    by (simp add: fixtures)
  show ?thesis
    using CreateMatch_channel_closed [OF written enqueued closed, of "Some ''context canceled''"]
      CreateMatch_channel_closed [OF written enqueued closed, of None]
    by (simp add: server_def fixed_store_def)
qed

text \<open>
  C6. When the store write and the enqueue succeed, the watch delivers a record and the
  properties of the profile that came in are valid JSON, the result is the delivered
  record. If its Error field is not empty the error is not nil and its text is that
  field; if its Error field is empty the error is nil.
\<close>

theorem CreateMatch_delivered_record:
  assumes "redispb_MarshalToRedis (pool s) (shim_rosters J (cfg s) (shim_pools J (cfg s) profile0))
             (redis_expirations_matchobject (cfg s)) w = (None, w1)"
    and "redisHelpers_Update (pool s) (queues_profiles_name (cfg s))
             (moID @ ''.'' @ mo_Id profile0) w1 = (None, w2)"
    and "redispb_Watcher (pool s) (api_backend_backoff (cfg s))
             (empty_MatchObject\<lparr>mo_Id := moID @ ''.'' @ mo_Id profile0\<rparr>) w2 = (Some mo, w3)"
    and "gjson_Valid J (mo_Properties profile0)"
  shows "ret (fst (CreateMatch s J moID profile0 w)) = mo
       \<and> err (fst (CreateMatch s J moID profile0 w)) =
           (if mo_Error mo \<noteq> [] then Some (mo_Error mo) else None)"
  using assms(4) by (simp add: CreateMatch_delivered [OF assms(1-3)] Let_def)

theorem CreateMatch_delivered_record_witness:
  "gjson_Valid strict_json (mo_Properties (profile_p1 ''{}''))
   \<and> ret (fst (CreateMatch (server None None (Some (answer ''{}'' ''no players'')) None None None)
        strict_json ''x1'' (profile_p1 ''{}'') 0)) = answer ''{}'' ''no players''
   \<and> err (fst (CreateMatch (server None None (Some (answer ''{}'' ''no players'')) None None None)
        strict_json ''x1'' (profile_p1 ''{}'') 0)) = Some ''no players''
   \<and> ret (fst (CreateMatch (server None None (Some (answer ''{'' [])) None None None)
        strict_json ''x1'' (profile_p1 ''{}'') 0)) = answer ''{'' []
   \<and> err (fst (CreateMatch (server None None (Some (answer ''{'' [])) None None None)
        strict_json ''x1'' (profile_p1 ''{}'') 0)) = None"
proof -
  let ?p = "profile_p1 ''{}''"
  have written: "redispb_MarshalToRedis (pool (server None None (Some mo) None None None))
      (shim_rosters strict_json (cfg (server None None (Some mo) None None None))
         (shim_pools strict_json (cfg (server None None (Some mo) None None None)) ?p))
      (redis_expirations_matchobject (cfg (server None None (Some mo) None None None))) 0 =
      (None, 1)"
    for mo
    by (simp add: fixtures)
  have enqueued: "redisHelpers_Update (pool (server None None (Some mo) None None None))
      (queues_profiles_name (cfg (server None None (Some mo) None None None)))
      (''x1'' @ ''.'' @ mo_Id ?p) 1 = (None, 2)"
    for mo
    by (simp add: fixtures)
  have delivered: "redispb_Watcher (pool (server None None (Some mo) None None None))
      (api_backend_backoff (cfg (server None None (Some mo) None None None)))
      (empty_MatchObject\<lparr>mo_Id := ''x1'' @ ''.'' @ mo_Id ?p\<rparr>) 2 = (Some mo, 3)"
    for mo
    by (simp add: fixtures)
  have valid: "gjson_Valid strict_json (mo_Properties ?p)"
    by (simp add: strict_json_def profile_p1_def)
  show ?thesis
    using valid
      CreateMatch_delivered_record [OF written enqueued delivered valid, of "answer ''{}'' ''no players''"]
      CreateMatch_delivered_record [OF written enqueued delivered valid, of "answer ''{'' []"]
    by (simp add: answer_def)
qed

text \<open>
  C7 as stated fails in one point: no record is written under the request key. In a call
  that gets through, the one store write is of the profile, whose Id is \<open>p1\<close>, while the
  key that is enqueued is \<open>x1.p1\<close>.
\<close>

theorem CreateMatch_store_order_counterexample:
  "store_writes (trace (fst (CreateMatch (server None None (Some (answer ''{}'' [])) None None None)
      strict_json ''x1'' (profile_p1 ''{}'') 0))) = [(profile_p1 ''{}'', 60)]
   \<and> enqueues (trace (fst (CreateMatch (server None None (Some (answer ''{}'' [])) None None None)
      strict_json ''x1'' (profile_p1 ''{}'') 0))) = [(''profileq'', ''x1.p1'')]
   \<and> mo_Id (profile_p1 ''{}'') \<noteq> ''x1.p1''"
  by (simp add: CreateMatch_def fixtures)

text \<open>
  C7, amended. The effects of one call on the store are ordered: first the write of the
  profile message (as the compatibility step left it, with the Id the caller gave it),
  then the enqueue of the request key on the work queue, then the watch on the request
  key. Each step acts on the world the step before left behind. When the write fails
  nothing is enqueued and nothing is watched; when the enqueue fails nothing is watched.
\<close>

theorem CreateMatch_store_order:
  fixes s :: "('s, 'p) backendAPI" and J moID profile0 w
  defines "c \<equiv> fst (CreateMatch s J moID profile0 w)"
    and "profile \<equiv> shim_rosters J (cfg s) (shim_pools J (cfg s) profile0)"
    and "ttl \<equiv> redis_expirations_matchobject (cfg s)"
    and "q \<equiv> queues_profiles_name (cfg s)"
    and "requestKey \<equiv> moID @ ''.'' @ mo_Id profile0"
  defines "write \<equiv> redispb_MarshalToRedis (pool s) profile ttl w"
    and "enqueue \<equiv> redisHelpers_Update (pool s) q requestKey"
    and "watch \<equiv> redispb_Watcher (pool s) (api_backend_backoff (cfg s))
           (empty_MatchObject\<lparr>mo_Id := requestKey\<rparr>)"
  shows "(\<forall>e w1. write = (Some e, w1) \<longrightarrow>
            trace c = [EvMarshalToRedis profile ttl, EvStats BeGrpcErrors 1] \<and> world c = w1)
       \<and> (\<forall>e w1 w2. write = (None, w1) \<and> enqueue w1 = (Some e, w2) \<longrightarrow>
            trace c = [EvMarshalToRedis profile ttl, EvUpdate q requestKey, EvStats BeGrpcErrors 1]
          \<and> world c = w2)
       \<and> (\<forall>w1 w2. write = (None, w1) \<and> enqueue w1 = (None, w2) \<longrightarrow>
            (\<exists>m. trace c = [EvMarshalToRedis profile ttl, EvUpdate q requestKey,
                            EvWatcher (empty_MatchObject\<lparr>mo_Id := requestKey\<rparr>), EvStats m 1])
          \<and> world c = snd (watch w2))
       \<and> mo_Id profile = mo_Id profile0"
proof (intro conjI allI impI)
  fix e w1
  assume "write = (Some e, w1)"
  then have "c = \<lparr>ret = empty_MatchObject, err = Some e, world = w1,
      trace = [EvMarshalToRedis profile ttl, EvStats BeGrpcErrors 1]\<rparr>"
    unfolding c_def write_def profile_def ttl_def by (rule CreateMatch_write_failed)
  then show "trace c = [EvMarshalToRedis profile ttl, EvStats BeGrpcErrors 1]" "world c = w1"
    by simp_all
next
  fix e w1 w2
  assume "write = (None, w1) \<and> enqueue w1 = (Some e, w2)"
  then have "write = (None, w1)" and "enqueue w1 = (Some e, w2)"
    by simp_all
  then have "c = \<lparr>ret = empty_MatchObject, err = Some e, world = w2,
      trace = [EvMarshalToRedis profile ttl, EvUpdate q requestKey, EvStats BeGrpcErrors 1]\<rparr>"
    unfolding c_def write_def enqueue_def profile_def ttl_def q_def requestKey_def
    by (rule CreateMatch_enqueue_failed)
  then show "trace c = [EvMarshalToRedis profile ttl, EvUpdate q requestKey, EvStats BeGrpcErrors 1]"
    "world c = w2"
    by simp_all
next
  fix w1 w2
  assume "write = (None, w1) \<and> enqueue w1 = (None, w2)"
  then have ok: "write = (None, w1)" "enqueue w1 = (None, w2)"
    by simp_all
  obtain r w3 where watched: "watch w2 = (r, w3)"
    by (cases "watch w2")
  have both: "(\<exists>m. trace c = [EvMarshalToRedis profile ttl, EvUpdate q requestKey,
                     EvWatcher (empty_MatchObject\<lparr>mo_Id := requestKey\<rparr>), EvStats m 1])
              \<and> world c = snd (watch w2)"
  proof (cases r)
    case None
    with ok watched show ?thesis
      unfolding c_def write_def enqueue_def watch_def profile_def ttl_def q_def requestKey_def
      by (simp add: CreateMatch_closed [of s J profile0 w w1 moID w2 w3])
  next
    case (Some mo)
    with ok watched show ?thesis
      unfolding c_def write_def enqueue_def watch_def profile_def ttl_def q_def requestKey_def
      by (simp add: CreateMatch_delivered [of s J profile0 w w1 moID w2 mo w3] Let_def)
  qed
  from both show "\<exists>m. trace c = [EvMarshalToRedis profile ttl, EvUpdate q requestKey,
                     EvWatcher (empty_MatchObject\<lparr>mo_Id := requestKey\<rparr>), EvStats m 1]"
    by (rule conjunct1)
  from both show "world c = snd (watch w2)"
    by (rule conjunct2)
next
  show "mo_Id profile = mo_Id profile0"
    unfolding profile_def by (rule shim_keeps)
qed

theorem CreateMatch_store_order_witness:
  "trace (fst (CreateMatch (server (Some ''store unreachable'') None None None None None)
       strict_json ''x1'' (profile_p1 ''{}'') 0)) =
     [EvMarshalToRedis (profile_p1 ''{}'') 60, EvStats BeGrpcErrors 1]
   \<and> trace (fst (CreateMatch (server None (Some ''queue unreachable'') None None None None)
       strict_json ''x1'' (profile_p1 ''{}'') 0)) =
     [EvMarshalToRedis (profile_p1 ''{}'') 60, EvUpdate ''profileq'' ''x1.p1'',
      EvStats BeGrpcErrors 1]
   \<and> trace (fst (CreateMatch (server None None (Some (answer ''{}'' [])) None None None)
       strict_json ''x1'' (profile_p1 ''{}'') 0)) =
     [EvMarshalToRedis (profile_p1 ''{}'') 60, EvUpdate ''profileq'' ''x1.p1'',
      EvWatcher (empty_MatchObject\<lparr>mo_Id := ''x1.p1''\<rparr>), EvStats BeGrpcRequests 1]
   \<and> world (fst (CreateMatch (server None None (Some (answer ''{}'' [])) None None None)
       strict_json ''x1'' (profile_p1 ''{}'') 0)) = 3"
  using CreateMatch_store_order
    [of "server (Some ''store unreachable'') None None None None None" strict_json
        "profile_p1 ''{}''" 0 "''x1''"]
  by (simp add: CreateMatch_def fixtures)




end
